theory Spec2Isabelle
  imports Complex_Main
begin

section \<open>The IoT sensor data API of server.js\<close>

text \<open>
  The development embeds the request handlers of \<^verbatim>\<open>src/server.js\<close>: the three
  module-level stores (\<^verbatim>\<open>devices\<close>, \<^verbatim>\<open>sensorData\<close>, \<^verbatim>\<open>connectionLogs\<close>)
  become one state record that every handler takes and returns; each handler returns the
  JSON response it sends together with the state it leaves.

  What the handlers read from outside is an explicit argument: the configured
  \<^verbatim>\<open>API_KEY\<close>, the request, the clock (one reading for each place of the source
  that evaluates \<^verbatim>\<open>new Date()\<close> or \<^verbatim>\<open>Date.now()\<close>), the random suffix of an
  entry id, and those built-in functions of the JavaScript runtime whose results depend
  on number formatting or on the time zone (record \<open>runtime\<close>). Writes to the console
  are not part of the state and are left out.
\<close>

subsection \<open>JavaScript values\<close>

text \<open>
  A Number is NaN, an infinity, or a finite double, which is a rational number. A field
  of the JSON body is absent (\<^verbatim>\<open>undefined\<close> after destructuring) or a JSON value:
  null, a boolean, a number, a string, an array of values, or an object, which is the
  list of its members in the order of the text.
\<close>

datatype jsnum = NaN | NegInf | Fin rat | PosInf

datatype jsval =
  JUndefined | JNull | JBool bool | JNum jsnum | JStr string
| JArr "jsval list" | JObj "(string \<times> jsval) list"

text \<open>An instant is a number of milliseconds since the epoch. An ISO string made by
  \<^verbatim>\<open>toISOString()\<close> is represented by the instant it denotes, which is also what
  \<^verbatim>\<open>new Date(s)\<close> reads back from it.\<close>

type_synonym time = int

text \<open>Truthiness, as \<^verbatim>\<open>!v\<close>, \<^verbatim>\<open>v || w\<close> and \<^verbatim>\<open>if (v)\<close> test it.\<close>

fun truthy :: "jsval \<Rightarrow> bool" where
  "truthy JUndefined = False"
| "truthy JNull = False"
| "truthy (JBool b) = b"
| "truthy (JNum n) = (n \<noteq> NaN \<and> n \<noteq> Fin 0)"
| "truthy (JStr s) = (s \<noteq> [])"
| "truthy (JArr xs) = True"
| "truthy (JObj ms) = True"

text \<open>A header, a query parameter and an environment variable are a string or
  \<^verbatim>\<open>undefined\<close>.\<close>

fun truthy_str :: "string option \<Rightarrow> bool" where
  "truthy_str None = False"
| "truthy_str (Some s) = (s \<noteq> [])"

text \<open>\<^verbatim>\<open>a || b\<close> on two such values.\<close>

definition or_str :: "string option \<Rightarrow> string option \<Rightarrow> string option" where
  "or_str a b = (if truthy_str a then a else b)"

definition isNaN :: "jsnum \<Rightarrow> bool" where
  "isNaN n = (n = NaN)"

text \<open>\<^verbatim>\<open>a < b\<close> on Numbers: false as soon as one side is NaN.\<close>

fun num_less :: "jsnum \<Rightarrow> jsnum \<Rightarrow> bool" where
  "num_less (Fin a) (Fin b) = (a < b)"
| "num_less NegInf (Fin b) = True"
| "num_less NegInf PosInf = True"
| "num_less (Fin a) PosInf = True"
| "num_less _ _ = False"

definition Math_min :: "jsnum \<Rightarrow> jsnum \<Rightarrow> jsnum" where
  "Math_min a b = (if a = NaN \<or> b = NaN then NaN else if num_less b a then b else a)"

text \<open>\<^verbatim>\<open>a + b\<close> on Numbers. The sum of two finite values is the exact sum, which is
  what the double sum is for integers below \<open>2 ^ 53\<close>.\<close>

fun num_add :: "jsnum \<Rightarrow> jsnum \<Rightarrow> jsnum" where
  "num_add NaN _ = NaN"
| "num_add _ NaN = NaN"
| "num_add PosInf NegInf = NaN"
| "num_add NegInf PosInf = NaN"
| "num_add PosInf _ = PosInf"
| "num_add _ PosInf = PosInf"
| "num_add NegInf _ = NegInf"
| "num_add _ NegInf = NegInf"
| "num_add (Fin a) (Fin b) = Fin (a + b)"

text \<open>\<^verbatim>\<open>Array.prototype.slice(start, end)\<close>: each bound is truncated to an integer
  (NaN counts as 0), a negative bound counts from the end, and both are clamped to the
  array.\<close>

fun slice_index :: "nat \<Rightarrow> jsnum \<Rightarrow> nat" where
  "slice_index len NaN = 0"
| "slice_index len NegInf = 0"
| "slice_index len PosInf = len"
| "slice_index len (Fin q) =
     (let r = (if q < 0 then \<lceil>q\<rceil> else \<lfloor>q\<rfloor>)
      in if r < 0 then nat (max (int len + r) 0) else min (nat r) len)"

definition slice :: "'a list \<Rightarrow> jsnum \<Rightarrow> jsnum \<Rightarrow> 'a list" where
  "slice xs start fin =
     (let k = slice_index (length xs) start;
          final = slice_index (length xs) fin
      in take (final - k) (drop k xs))"

subsection \<open>Built-in functions taken from the runtime\<close>

text \<open>
  \<^item> \<open>parseFloat_string\<close>, \<open>parseInt_string\<close>: \<^verbatim>\<open>parseFloat(s)\<close> and
    \<^verbatim>\<open>parseInt(s)\<close> on a string.
  \<^item> \<open>Number_toString\<close>: the string of a Number, as a template literal, a property
    key and \<^verbatim>\<open>+\<close> with a string make it.
  \<^item> \<open>Date_minus_days\<close>: the instant of a Date \<open>d\<close> after
    \<^verbatim>\<open>d.setDate(d.getDate() - n)\<close> in the server's time zone; \<open>None\<close> is an
    Invalid Date.
  \<^item> \<open>TypeError_message\<close>: the \<^verbatim>\<open>message\<close> of the TypeError that the
    engine throws when an object has no primitive value.
\<close>

record runtime =
  parseFloat_string :: "string \<Rightarrow> jsnum"
  parseInt_string :: "string \<Rightarrow> jsnum"
  Number_toString :: "jsnum \<Rightarrow> string"
  Date_minus_days :: "time \<Rightarrow> jsnum \<Rightarrow> time option"
  TypeError_message :: string

text \<open>\<^verbatim>\<open>Array.prototype.join\<close> with the separator \<^verbatim>\<open>,\<close>.\<close>

fun join_comma :: "string list \<Rightarrow> string" where
  "join_comma [] = []"
| "join_comma [x] = x"
| "join_comma (x # y # ys) = x @ '','' @ join_comma (y # ys)"

text \<open>
  The string of a value, as a property key, a template literal and \<^verbatim>\<open>parseFloat\<close>
  ask for it; \<open>None\<close> stands for the TypeError that the conversion throws.
  \<^item> An array is the join of its elements, where null counts as the empty string.
  \<^item> An object made by \<^verbatim>\<open>JSON.parse\<close> has no callable member of its own. With
    an own member \<^verbatim>\<open>toString\<close> the conversion finds nothing to call that
    returns a primitive (the inherited \<^verbatim>\<open>valueOf\<close> returns the object) and
    throws; without one, the inherited \<^verbatim>\<open>toString\<close> answers
    \<^verbatim>\<open>[object Object]\<close>.
\<close>

fun ToString :: "runtime \<Rightarrow> jsval \<Rightarrow> string option" where
  "ToString rt JUndefined = Some ''undefined''"
| "ToString rt JNull = Some ''null''"
| "ToString rt (JBool b) = Some (if b then ''true'' else ''false'')"
| "ToString rt (JNum n) = Some (Number_toString rt n)"
| "ToString rt (JStr s) = Some s"
| "ToString rt (JArr xs) =
     map_option join_comma
       (those (map (\<lambda>x. if x = JNull \<or> x = JUndefined then Some [] else ToString rt x) xs))"
| "ToString rt (JObj ms) =
     (if ''toString'' \<in> fst ` set ms then None else Some ''[object Object]'')"

text \<open>\<^verbatim>\<open>parseFloat(v)\<close> parses the string of \<open>v\<close>, and throws when the
  conversion to a string does. The string of a Number reads back as that Number; the
  strings of null and of a boolean have no numeric prefix.\<close>

fun parseFloat :: "runtime \<Rightarrow> jsval \<Rightarrow> jsnum option" where
  "parseFloat rt (JStr s) = Some (parseFloat_string rt s)"
| "parseFloat rt (JNum n) = Some n"
| "parseFloat rt (JArr xs) = map_option (parseFloat_string rt) (ToString rt (JArr xs))"
| "parseFloat rt (JObj ms) = map_option (parseFloat_string rt) (ToString rt (JObj ms))"
| "parseFloat rt _ = Some NaN"

subsection \<open>Configuration and storage (lines 18 to 45)\<close>

record device =
  name :: jsval
  location :: string
  registeredAt :: time
  autoRegistered :: bool

text \<open>What \<^verbatim>\<open>devices[key]\<close> evaluates to: a registered device, or a member that the
  object literal inherits from \<^verbatim>\<open>Object.prototype\<close>.\<close>

datatype device_meta = Registered device | Inherited string

text \<open>The timestamp of an entry: the payload's \<^verbatim>\<open>ts\<close> as sent, or the ISO string of
  a server instant.\<close>

datatype stamp = Supplied jsval | ServerTime time

record entry =
  e_id :: string
  e_device_id :: jsval
  e_device_meta :: device_meta
  e_sensor :: jsval
  e_temperature :: jsnum
  e_humidity :: jsnum
  e_timestamp :: stamp
  e_received_at :: time
  e_client_ip :: "string option"

datatype status = SUCCESS | INFO | WARNING | ERROR

record log =
  l_timestamp :: time
  l_ip :: "string option"
  l_userAgent :: string
  l_status :: status
  l_message :: string
  l_apiKey :: string

record state =
  devices :: "string \<rightharpoonup> device"
  sensorData :: "entry list"
  connectionLogs :: "log list"


text \<open>Module initialisation: without an \<^verbatim>\<open>API_KEY\<close> (unset or empty) the process
  exits with code 1 before any route exists; otherwise the stores start with the two
  pre-registered devices, whose \<^verbatim>\<open>registeredAt\<close> are two readings of the clock.\<close>

definition initial_state :: "time \<Rightarrow> time \<Rightarrow> state" where
  "initial_state t1 t2 =
     \<lparr>devices =
        [''DEADBEEF0001'' \<mapsto>
           \<lparr>name = JStr ''Greenhouse_Node_1'', location = ''Greenhouse-01'',
            registeredAt = t1, autoRegistered = False\<rparr>,
         ''C4D8D539D335'' \<mapsto>
           \<lparr>name = JStr ''Greenhouse_Node_1'', location = ''Greenhouse-01'',
            registeredAt = t2, autoRegistered = False\<rparr>],
      sensorData = [],
      connectionLogs = []\<rparr>"


definition Object_prototype_keys :: "string list" where
  "Object_prototype_keys =
     [''constructor'', ''__defineGetter__'', ''__defineSetter__'', ''hasOwnProperty'',
      ''__lookupGetter__'', ''__lookupSetter__'', ''isPrototypeOf'',
      ''propertyIsEnumerable'', ''toString'', ''valueOf'', ''__proto__'',
      ''toLocaleString'']"

definition devices_get :: "(string \<rightharpoonup> device) \<Rightarrow> string \<Rightarrow> device_meta option" where
  "devices_get ds key =
     (case ds key of
        Some d \<Rightarrow> Some (Registered d)
      | None \<Rightarrow> if key \<in> set Object_prototype_keys then Some (Inherited key) else None)"

subsection \<open>Requests\<close>

record payload =
  device_id :: jsval
  device_name :: jsval
  sensor :: jsval
  temperature :: jsval
  humidity :: jsval
  ts :: jsval

record request =
  x_api_key :: "string option"
  user_agent :: "string option"
  ip :: "string option"
  remoteAddress :: "string option"
  body :: payload

subsection \<open>logConnection (lines 48 to 65)\<close>

text \<open>Lines 49 to 56: the record.\<close>

definition log_record :: "request \<Rightarrow> time \<Rightarrow> status \<Rightarrow> string \<Rightarrow> log" where
  "log_record req t st message =
     \<lparr>l_timestamp = t,
      l_ip = or_str (ip req) (remoteAddress req),
      l_userAgent = (case or_str (user_agent req) (Some ''Unknown'') of
                       Some u \<Rightarrow> u | None \<Rightarrow> ''Unknown''),
      l_status = st,
      l_message = message,
      l_apiKey = (if truthy_str (x_api_key req) then ''Present'' else ''Missing'')\<rparr>"

text \<open>Lines 57 to 62: push, then drop the oldest log when more than 100 are held.\<close>

definition logConnection :: "request \<Rightarrow> time \<Rightarrow> status \<Rightarrow> string \<Rightarrow> log list \<Rightarrow> log list" where
  "logConnection req t st message logs =
     (let log = log_record req t st message;
          pushed = logs @ [log]
      in if length pushed > 100 then tl pushed else pushed)"

subsection \<open>POST /api/data (lines 105 to 216)\<close>

text \<open>The places of the handler that read the clock. The four exits with status 401
  and 400 are exclusive, so they share one reading; \<open>LogCatch\<close> is the reading of the
  \<^verbatim>\<open>catch\<close> block.\<close>

datatype site =
  LogError | LogWarning | RegisteredAt | LogInfo | IdNow | Timestamp | ReceivedAt | LogSuccess
| LogCatch

text \<open>The response: the 200 body carries \<^verbatim>\<open>entry_id\<close>, \<^verbatim>\<open>device_id\<close> and
  \<^verbatim>\<open>timestamp\<close>; an error body carries \<^verbatim>\<open>error\<close> and \<^verbatim>\<open>message\<close> (the
  fields that echo the input are left out).\<close>

datatype response = Accepted string jsval time | Rejected nat string string

fun res_status :: "response \<Rightarrow> nat" where
  "res_status (Accepted i d t) = 200"
| "res_status (Rejected code e m) = code"

text \<open>Lines 189 to 195: push, then drop the oldest entry when more than 1000 are held.\<close>

definition sensorData_push :: "entry \<Rightarrow> entry list \<Rightarrow> entry list" where
  "sensorData_push e es =
     (let pushed = es @ [e] in if length pushed > 1000 then tl pushed else pushed)"

text \<open>Line 159.\<close>

definition outside_ranges :: "jsnum \<Rightarrow> jsnum \<Rightarrow> bool" where
  "outside_ranges temp hum =
     (num_less temp (Fin (- 50)) \<or> num_less (Fin 100) temp \<or>
      num_less hum (Fin 0) \<or> num_less (Fin 100) hum)"

text \<open>Line 135.\<close>

definition missing_required_fields :: "payload \<Rightarrow> bool" where
  "missing_required_fields b =
     (\<not> truthy (device_id b) \<or> \<not> truthy (sensor b) \<or>
      temperature b = JUndefined \<or> humidity b = JUndefined)"

text \<open>Lines 208 to 215: the \<^verbatim>\<open>catch\<close> block, entered in the state that the
  \<^verbatim>\<open>try\<close> block had reached when it threw.\<close>

definition server_error ::
  "runtime \<Rightarrow> (site \<Rightarrow> time) \<Rightarrow> request \<Rightarrow> state \<Rightarrow> response \<times> state" where
  "server_error rt now req s =
     (Rejected 500 ''Internal server error'' ''Please try again later'',
      s\<lparr>connectionLogs :=
          logConnection req (now LogCatch) ERROR (''Server error: '' @ TypeError_message rt)
            (connectionLogs s)\<rparr>)"

text \<open>
  The body is the object that \<^verbatim>\<open>express.json()\<close> leaves in \<^verbatim>\<open>req.body\<close>
  (an empty object when the request has none). Three places of the \<^verbatim>\<open>try\<close>
  block can throw, each by converting a field to a string: the two calls of
  \<^verbatim>\<open>parseFloat\<close> (line 146 and 147) and the lookup \<^verbatim>\<open>devices[device_id]\<close>
  (line 165), which comes after the range check has logged its warning. Once the key is
  known the template literals that use it do not throw.
\<close>

definition post_api_data ::
  "runtime \<Rightarrow> string option \<Rightarrow> (site \<Rightarrow> time) \<Rightarrow> string \<Rightarrow> request \<Rightarrow> state
     \<Rightarrow> response \<times> state" where
  "post_api_data rt API_KEY now rnd req s =
     (let apikey = x_api_key req;
          clientIP = or_str (ip req) (remoteAddress req);
          b = body req
      in
      if \<not> truthy_str apikey then
        (Rejected 401 ''Missing API key'' ''Include X-API-Key header with your request'',
         s\<lparr>connectionLogs :=
             logConnection req (now LogError) ERROR ''Missing API key'' (connectionLogs s)\<rparr>)
      else if apikey \<noteq> API_KEY then
        (Rejected 401 ''Invalid API key'' ''The provided API key is not valid'',
         s\<lparr>connectionLogs :=
             logConnection req (now LogError) ERROR ''Invalid API key'' (connectionLogs s)\<rparr>)
      else if missing_required_fields b then
        (Rejected 400 ''Missing required fields'' ''Please provide all required fields'',
         s\<lparr>connectionLogs :=
             logConnection req (now LogError) ERROR ''Missing required fields''
               (connectionLogs s)\<rparr>)
      else
        case parseFloat rt (temperature b) of
          None \<Rightarrow> server_error rt now req s
        | Some temp \<Rightarrow>
        (case parseFloat rt (humidity b) of
          None \<Rightarrow> server_error rt now req s
        | Some hum \<Rightarrow>
        if isNaN temp \<or> isNaN hum then
          (Rejected 400 ''Invalid data types''
             ''Temperature and humidity must be valid numbers'',
           s\<lparr>connectionLogs :=
               logConnection req (now LogError) ERROR ''Invalid data types''
                 (connectionLogs s)\<rparr>)
        else
          let logs1 =
                (if outside_ranges temp hum
                 then logConnection req (now LogWarning) WARNING
                        ''Data outside expected ranges'' (connectionLogs s)
                 else connectionLogs s)
          in
          case ToString rt (device_id b) of
            None \<Rightarrow> server_error rt now req (s\<lparr>connectionLogs := logs1\<rparr>)
          | Some key \<Rightarrow>
          let (devs, meta, logs2) =
                (case devices_get (devices s) key of
                   Some m \<Rightarrow> (devices s, m, logs1)
                 | None \<Rightarrow>
                     let d = \<lparr>name = (if truthy (device_name b) then device_name b
                                       else JStr (''Device-'' @ key)),
                              location = ''Unknown'',
                              registeredAt = now RegisteredAt,
                              autoRegistered = True\<rparr>
                     in ((devices s)(key \<mapsto> d), Registered d,
                         logConnection req (now LogInfo) INFO
                           (''New device registered: '' @ key) logs1));
              entry = \<lparr>e_id = Number_toString rt (Fin (of_int (now IdNow))) @ rnd,
                       e_device_id = device_id b,
                       e_device_meta = meta,
                       e_sensor = sensor b,
                       e_temperature = temp,
                       e_humidity = hum,
                       e_timestamp = (if truthy (ts b) then Supplied (ts b)
                                      else ServerTime (now Timestamp)),
                       e_received_at = now ReceivedAt,
                       e_client_ip = clientIP\<rparr>;
              logs3 = logConnection req (now LogSuccess) SUCCESS
                        (''Data received from '' @ key) logs2
          in (Accepted (e_id entry) (e_device_id entry) (e_received_at entry),
              \<lparr>devices = devs,
               sensorData = sensorData_push entry (sensorData s),
               connectionLogs = logs3\<rparr>)))"

subsection \<open>GET /api/devices (lines 219 to 230)\<close>

text \<open>\<^verbatim>\<open>Object.keys(devices).length\<close> counts the registered ids.\<close>

definition get_api_devices :: "state \<Rightarrow> nat \<times> (string \<rightharpoonup> device)" where
  "get_api_devices s = (card (dom (devices s)), devices s)"

subsection \<open>GET /api/data (lines 233 to 261)\<close>

record data_query =
  q_device_id :: "string option"
  q_limit :: "string option"
  q_offset :: "string option"

record data_page =
  p_total :: nat
  p_returned :: nat
  p_offset :: jsnum
  p_limit :: jsnum
  p_data :: "entry list"

text \<open>\<^verbatim>\<open>v === q\<close> for a stored value and a query string.\<close>

fun strict_eq_str :: "jsval \<Rightarrow> string option \<Rightarrow> bool" where
  "strict_eq_str (JStr s) (Some d) = (s = d)"
| "strict_eq_str JUndefined None = True"
| "strict_eq_str _ _ = False"

definition get_api_data :: "runtime \<Rightarrow> data_query \<Rightarrow> state \<Rightarrow> data_page" where
  "get_api_data rt q s =
     (let filteredData =
            (if truthy_str (q_device_id q)
             then filter (\<lambda>entry. strict_eq_str (e_device_id entry) (q_device_id q))
                    (sensorData s)
             else sensorData s);
          startIndex = (case q_offset q of None \<Rightarrow> Fin 0 | Some v \<Rightarrow> parseInt_string rt v);
          limitNum =
            Math_min (case q_limit q of None \<Rightarrow> Fin 50 | Some v \<Rightarrow> parseInt_string rt v)
              (Fin 500);
          paginatedData = slice filteredData startIndex (num_add startIndex limitNum)
      in \<lparr>p_total = length filteredData,
          p_returned = length paginatedData,
          p_offset = startIndex,
          p_limit = limitNum,
          p_data = rev paginatedData\<rparr>)"

subsection \<open>GET /api/logs (lines 264 to 275)\<close>

text \<open>\<^verbatim>\<open>slice(-50)\<close> keeps the last 50 logs.\<close>

definition get_api_logs :: "state \<Rightarrow> nat \<times> log list" where
  "get_api_logs s =
     (length (connectionLogs s),
      rev (drop (length (connectionLogs s) - 50) (connectionLogs s)))"

subsection \<open>GET /api/stats (lines 278 to 308)\<close>

record statistics =
  total_devices :: nat
  total_data_points :: nat
  data_last_hour :: nat
  data_last_24h :: nat
  latest_entry :: "entry option"

definition get_api_stats :: "time \<Rightarrow> state \<Rightarrow> statistics" where
  "get_api_stats now s =
     (let oneHourAgo = now - 60 * 60 * 1000;
          oneDayAgo = now - 24 * 60 * 60 * 1000;
          recentData = filter (\<lambda>entry. e_received_at entry > oneHourAgo) (sensorData s);
          dailyData = filter (\<lambda>entry. e_received_at entry > oneDayAgo) (sensorData s)
      in \<lparr>total_devices = card (dom (devices s)),
          total_data_points = length (sensorData s),
          data_last_hour = length recentData,
          data_last_24h = length dailyData,
          latest_entry = (if length (sensorData s) > 0 then Some (last (sensorData s))
                          else None)\<rparr>)"

subsection \<open>DELETE /api/data/cleanup (lines 311 to 336)\<close>

text \<open>Lines 317 to 331, from the cutoff on. A comparison with an Invalid Date is
  false. The response carries the count of deleted entries and \<^verbatim>\<open>remaining\<close>.\<close>

definition cleanup_from :: "time option \<Rightarrow> state \<Rightarrow> (nat \<times> nat) \<times> state" where
  "cleanup_from cutoffDate s =
     (let originalLength = length (sensorData s);
          filteredData =
            filter (\<lambda>entry. case cutoffDate of
                               None \<Rightarrow> False
                             | Some c \<Rightarrow> e_received_at entry > c)
              (sensorData s);
          s' = s\<lparr>sensorData := filteredData\<rparr>;
          deletedCount = originalLength - length (sensorData s')
      in ((deletedCount, length (sensorData s')), s'))"

definition delete_api_data_cleanup ::
  "runtime \<Rightarrow> time \<Rightarrow> string option \<Rightarrow> state \<Rightarrow> (nat \<times> nat) \<times> state" where
  "delete_api_data_cleanup rt now days s =
     (let cutoffDate =
            Date_minus_days rt now
              (case days of None \<Rightarrow> Fin 7 | Some v \<Rightarrow> parseInt_string rt v)
      in cleanup_from cutoffDate s)"

subsection \<open>The server as a transition system\<close>

text \<open>One constructor for each route that touches the stores, with what the route
  reads from outside; \<open>Other_route\<close> stands for the health checks and the 404 handler,
  which touch none. The global error handler (lines 356 to 364) logs one record.\<close>

datatype call =
  POST_api_data "site \<Rightarrow> time" string request
| GET_api_devices
| GET_api_data data_query
| GET_api_logs
| GET_api_stats time
| DELETE_api_data_cleanup time "string option"
| Other_route
| Error_handler request time string

fun handle :: "runtime \<Rightarrow> string option \<Rightarrow> call \<Rightarrow> state \<Rightarrow> state" where
  "handle rt API_KEY (POST_api_data now rnd req) s = snd (post_api_data rt API_KEY now rnd req s)"
| "handle rt API_KEY (DELETE_api_data_cleanup now days) s =
     snd (delete_api_data_cleanup rt now days s)"
| "handle rt API_KEY (Error_handler req now msg) s =
     s\<lparr>connectionLogs :=
         logConnection req now ERROR (''Unhandled error: '' @ msg) (connectionLogs s)\<rparr>"
| "handle rt API_KEY _ s = s"

text \<open>A run of the server: the calls are served one after the other.\<close>

fun run :: "runtime \<Rightarrow> string option \<Rightarrow> call list \<Rightarrow> state \<Rightarrow> state" where
  "run rt API_KEY [] s = s"
| "run rt API_KEY (c # cs) s = run rt API_KEY cs (handle rt API_KEY c s)"

subsection \<open>Inputs of the examples\<close>

text \<open>An excerpt of the runtime: it agrees with JavaScript (for a server in UTC) on the
  arguments that the examples reach.\<close>

definition example_runtime :: runtime where
  "example_runtime =
     \<lparr>parseFloat_string = (\<lambda>v. if v = ''22.5'' then Fin (45 / 2) else NaN),
      parseInt_string = (\<lambda>v. if v = ''1'' then Fin 1 else if v = ''2'' then Fin 2 else NaN),
      Number_toString = (\<lambda>n. if n = Fin 1004 then ''1004'' else ''NaN''),
      Date_minus_days = (\<lambda>t n. if n = Fin 7 then Some (t - 7 * 86400000) else None),
      TypeError_message = ''Cannot convert object to primitive value''\<rparr>"

text \<open>A clock that advances by one millisecond from one reading to the next; the
  \<^verbatim>\<open>catch\<close> block reads it where the registration would.\<close>

fun example_clock :: "site \<Rightarrow> time" where
  "example_clock LogError = 1000"
| "example_clock LogWarning = 1001"
| "example_clock RegisteredAt = 1002"
| "example_clock LogInfo = 1003"
| "example_clock IdNow = 1004"
| "example_clock Timestamp = 1005"
| "example_clock ReceivedAt = 1006"
| "example_clock LogSuccess = 1007"
| "example_clock LogCatch = 1002"

text \<open>The reading of the spec's round trip scenario, and a request that carries a
  payload with a given \<^verbatim>\<open>X-API-Key\<close> header.\<close>

definition example_payload :: payload where
  "example_payload =
     \<lparr>device_id = JStr ''DEV1'', device_name = JUndefined, sensor = JStr ''dht11'',
      temperature = JNum (Fin (45 / 2)), humidity = JNum (Fin 55), ts = JUndefined\<rparr>"

definition example_request :: "string option \<Rightarrow> payload \<Rightarrow> request" where
  "example_request credential p =
     \<lparr>x_api_key = credential, user_agent = Some ''ESP8266HTTPClient'',
      ip = Some ''192.168.1.50'', remoteAddress = None, body = p\<rparr>"

text \<open>A stored reading of device \<open>d\<close> received at instant \<open>t\<close>.\<close>

definition example_reading :: "string \<Rightarrow> time \<Rightarrow> entry" where
  "example_reading d t =
     \<lparr>e_id = ''1004k3j9x0a1b'', e_device_id = JStr d,
      e_device_meta = Registered \<lparr>name = JStr (''Device-'' @ d), location = ''Unknown'',
                                  registeredAt = 1002, autoRegistered = True\<rparr>,
      e_sensor = JStr ''dht11'', e_temperature = Fin (45 / 2), e_humidity = Fin 55,
      e_timestamp = ServerTime t, e_received_at = t, e_client_ip = Some ''192.168.1.50''\<rparr>"

section \<open>Properties\<close>

subsection \<open>Bounded stores\<close>

text \<open>A push that drops the head once the capacity is exceeded keeps a store that was
  within its capacity equal to the last \<open>C\<close> elements of everything pushed so far.\<close>

lemma bounded_push_drop:
  fixes C :: nat
  assumes "0 < C" "length xs \<le> C"
  shows "(if length (xs @ [y]) > C then tl (xs @ [y]) else xs @ [y])
         = drop (length (xs @ [y]) - C) (xs @ [y])"
proof (cases "length xs < C")
  case True
  then show ?thesis by simp
next
  case False
  with assms have "length xs = C" by simp
  then have "xs \<noteq> []" using assms by auto
  then show ?thesis using \<open>length xs = C\<close> assms(1) by (cases xs) simp_all
qed

lemma drop_snoc_step:
  fixes C :: nat
  assumes "0 < C"
  shows "drop (length (drop (length zs - C) zs @ [y]) - C) (drop (length zs - C) zs @ [y])
         = drop (length (zs @ [y]) - C) (zs @ [y])"
proof (cases "length zs < C")
  case True
  then show ?thesis by simp
next
  case False
  then have le: "C \<le> length zs" by simp
  then have a: "Suc (length zs - (length zs - C)) - C = Suc 0" by simp
  have b: "Suc (length zs) - C = Suc (length zs - C)" using le by simp
  have ne: "drop (length zs - C) zs \<noteq> []" using le assms by simp
  show ?thesis using le ne by (simp add: a b drop_Suc tl_drop)
qed

lemma fold_bounded_push:
  fixes C :: nat
  assumes C: "0 < C"
    and push: "\<And>e xs. push e xs =
                 (if length (xs @ [f e]) > C then tl (xs @ [f e]) else xs @ [f e])"
    and len: "length xs \<le> C"
  shows "fold push es xs = drop (length (xs @ map f es) - C) (xs @ map f es)"
proof (induction es rule: rev_induct)
  case Nil
  then show ?case using len by simp
next
  case (snoc e es)
  let ?zs = "xs @ map f es"
  let ?ys = "drop (length ?zs - C) ?zs"
  have l: "length ?ys \<le> C" by simp
  have "fold push (es @ [e]) xs = push e ?ys" using snoc by simp
  also have "\<dots> = drop (length (?ys @ [f e]) - C) (?ys @ [f e])"
    unfolding push by (rule bounded_push_drop[OF C l])
  also have "\<dots> = drop (length (?zs @ [f e]) - C) (?zs @ [f e])"
    by (rule drop_snoc_step[OF C])
  finally show ?case by simp
qed

lemma fold_sensorData_push:
  "length xs \<le> 1000 \<Longrightarrow>
   fold sensorData_push es xs = drop (length (xs @ es) - 1000) (xs @ es)"
  using fold_bounded_push[of 1000 sensorData_push "\<lambda>e. e" xs es]
  by (simp add: sensorData_push_def Let_def)

lemma fold_logConnection:
  "length xs \<le> 100 \<Longrightarrow>
   fold (\<lambda>(req, t, st, m). logConnection req t st m) cs xs =
   drop (length (xs @ map (\<lambda>(req, t, st, m). log_record req t st m) cs) - 100)
     (xs @ map (\<lambda>(req, t, st, m). log_record req t st m) cs)"
  using fold_bounded_push[of 100 "\<lambda>(req, t, st, m). logConnection req t st m"
      "\<lambda>(req, t, st, m). log_record req t st m" xs cs]
  by (simp add: logConnection_def Let_def split_beta)

lemma sensorData_push_last: "sensorData_push e es \<noteq> [] \<and> last (sensorData_push e es) = e"
  by (cases es) (simp_all add: sensorData_push_def Let_def)

text \<open>
  Claim C5. Starting from the empty store, after the readings \<open>es\<close> have been appended
  in this order (lines 190 to 195) the store holds the last 1000 of them, in insertion
  order, so its size is \<open>min (length es) 1000\<close>; after the calls \<open>cs\<close> of
  \<^verbatim>\<open>logConnection\<close> the connection log holds the records of the last 100 calls, in
  order, so its size is \<open>min (length cs) 100\<close>. What is evicted depends on the
  position only.
\<close>

theorem fifo_eviction:
  "fold sensorData_push es [] = drop (length es - 1000) es \<and>
   length (fold sensorData_push es []) = min (length es) 1000 \<and>
   fold (\<lambda>(req, t, st, m). logConnection req t st m) cs [] =
     drop (length cs - 100) (map (\<lambda>(req, t, st, m). log_record req t st m) cs) \<and>
   length (fold (\<lambda>(req, t, st, m). logConnection req t st m) cs []) = min (length cs) 100"
  using fold_sensorData_push[of "[]" es] fold_logConnection[of "[]" cs]
  by (simp add: min_def)

subsection \<open>The exits of POST /api/data\<close>




lemma post_missing_key:
  "\<not> truthy_str (x_api_key req) \<Longrightarrow>
   post_api_data rt API_KEY now rnd req s =
     (Rejected 401 ''Missing API key'' ''Include X-API-Key header with your request'',
      s\<lparr>connectionLogs :=
          logConnection req (now LogError) ERROR ''Missing API key'' (connectionLogs s)\<rparr>)"
  by (simp add: post_api_data_def)

lemma post_invalid_key:
  "truthy_str (x_api_key req) \<Longrightarrow> x_api_key req \<noteq> API_KEY \<Longrightarrow>
   post_api_data rt API_KEY now rnd req s =
     (Rejected 401 ''Invalid API key'' ''The provided API key is not valid'',
      s\<lparr>connectionLogs :=
          logConnection req (now LogError) ERROR ''Invalid API key'' (connectionLogs s)\<rparr>)"
  by (simp add: post_api_data_def)

lemma post_missing_fields:
  "truthy_str (x_api_key req) \<Longrightarrow> x_api_key req = API_KEY \<Longrightarrow>
   missing_required_fields (body req) \<Longrightarrow>
   post_api_data rt API_KEY now rnd req s =
     (Rejected 400 ''Missing required fields'' ''Please provide all required fields'',
      s\<lparr>connectionLogs :=
          logConnection req (now LogError) ERROR ''Missing required fields''
            (connectionLogs s)\<rparr>)"
  by (simp add: post_api_data_def Let_def)

lemma post_throws_parse:
  "truthy_str (x_api_key req) \<Longrightarrow> x_api_key req = API_KEY \<Longrightarrow>
   \<not> missing_required_fields (body req) \<Longrightarrow>
   parseFloat rt (temperature (body req)) = None \<or>
     parseFloat rt (humidity (body req)) = None \<Longrightarrow>
   post_api_data rt API_KEY now rnd req s = server_error rt now req s"
  by (auto simp: post_api_data_def Let_def split: option.splits)

lemma post_invalid_types:
  "truthy_str (x_api_key req) \<Longrightarrow> x_api_key req = API_KEY \<Longrightarrow>
   \<not> missing_required_fields (body req) \<Longrightarrow>
   parseFloat rt (temperature (body req)) = Some temp \<Longrightarrow>
   parseFloat rt (humidity (body req)) = Some hum \<Longrightarrow>
   isNaN temp \<or> isNaN hum \<Longrightarrow>
   post_api_data rt API_KEY now rnd req s =
     (Rejected 400 ''Invalid data types'' ''Temperature and humidity must be valid numbers'',
      s\<lparr>connectionLogs :=
          logConnection req (now LogError) ERROR ''Invalid data types''
            (connectionLogs s)\<rparr>)"
  by (simp add: post_api_data_def Let_def)

lemma post_throws_key:
  "truthy_str (x_api_key req) \<Longrightarrow> x_api_key req = API_KEY \<Longrightarrow>
   \<not> missing_required_fields (body req) \<Longrightarrow>
   parseFloat rt (temperature (body req)) = Some temp \<Longrightarrow>
   parseFloat rt (humidity (body req)) = Some hum \<Longrightarrow>
   \<not> isNaN temp \<Longrightarrow> \<not> isNaN hum \<Longrightarrow>
   ToString rt (device_id (body req)) = None \<Longrightarrow>
   post_api_data rt API_KEY now rnd req s =
     server_error rt now req
       (s\<lparr>connectionLogs :=
           (if outside_ranges temp hum
            then logConnection req (now LogWarning) WARNING
                   ''Data outside expected ranges'' (connectionLogs s)
            else connectionLogs s)\<rparr>)"
  by (simp add: post_api_data_def Let_def)

lemma post_accepted_known:
  assumes "truthy_str (x_api_key req)" "x_api_key req = API_KEY"
    "\<not> missing_required_fields (body req)"
    "parseFloat rt (temperature (body req)) = Some temp"
    "parseFloat rt (humidity (body req)) = Some hum"
    "\<not> isNaN temp" "\<not> isNaN hum"
    "ToString rt (device_id (body req)) = Some key"
    "devices_get (devices s) key = Some m"
  shows "post_api_data rt API_KEY now rnd req s =
    (let b = body req;
         entry = \<lparr>e_id = Number_toString rt (Fin (of_int (now IdNow))) @ rnd,
                  e_device_id = device_id b,
                  e_device_meta = m,
                  e_sensor = sensor b,
                  e_temperature = temp,
                  e_humidity = hum,
                  e_timestamp = (if truthy (ts b) then Supplied (ts b)
                                 else ServerTime (now Timestamp)),
                  e_received_at = now ReceivedAt,
                  e_client_ip = or_str (ip req) (remoteAddress req)\<rparr>
     in (Accepted (e_id entry) (device_id b) (now ReceivedAt),
         \<lparr>devices = devices s,
          sensorData = sensorData_push entry (sensorData s),
          connectionLogs =
            fold (\<lambda>(t, st, m). logConnection req t st m)
              ((if outside_ranges temp hum
                then [(now LogWarning, WARNING, ''Data outside expected ranges'')] else []) @
               [(now LogSuccess, SUCCESS, ''Data received from '' @ key)])
              (connectionLogs s)\<rparr>))"
  using assms by (simp add: post_api_data_def Let_def)

lemma post_accepted_new:
  assumes "truthy_str (x_api_key req)" "x_api_key req = API_KEY"
    "\<not> missing_required_fields (body req)"
    "parseFloat rt (temperature (body req)) = Some temp"
    "parseFloat rt (humidity (body req)) = Some hum"
    "\<not> isNaN temp" "\<not> isNaN hum"
    "ToString rt (device_id (body req)) = Some key"
    "devices_get (devices s) key = None"
  shows "post_api_data rt API_KEY now rnd req s =
    (let b = body req;
         d = \<lparr>name = (if truthy (device_name b) then device_name b
                        else JStr (''Device-'' @ key)),
              location = ''Unknown'',
              registeredAt = now RegisteredAt,
              autoRegistered = True\<rparr>;
         entry = \<lparr>e_id = Number_toString rt (Fin (of_int (now IdNow))) @ rnd,
                  e_device_id = device_id b,
                  e_device_meta = Registered d,
                  e_sensor = sensor b,
                  e_temperature = temp,
                  e_humidity = hum,
                  e_timestamp = (if truthy (ts b) then Supplied (ts b)
                                 else ServerTime (now Timestamp)),
                  e_received_at = now ReceivedAt,
                  e_client_ip = or_str (ip req) (remoteAddress req)\<rparr>
     in (Accepted (e_id entry) (device_id b) (now ReceivedAt),
         \<lparr>devices = (devices s)(key \<mapsto> d),
          sensorData = sensorData_push entry (sensorData s),
          connectionLogs =
            fold (\<lambda>(t, st, m). logConnection req t st m)
              ((if outside_ranges temp hum
                then [(now LogWarning, WARNING, ''Data outside expected ranges'')] else []) @
               [(now LogInfo, INFO, ''New device registered: '' @ key),
                (now LogSuccess, SUCCESS, ''Data received from '' @ key)])
              (connectionLogs s)\<rparr>))"
  using assms by (simp add: post_api_data_def Let_def)

lemma post_accepted_status:
  assumes "truthy_str (x_api_key req)" "x_api_key req = API_KEY"
    "\<not> missing_required_fields (body req)"
    "parseFloat rt (temperature (body req)) = Some temp"
    "parseFloat rt (humidity (body req)) = Some hum"
    "\<not> isNaN temp" "\<not> isNaN hum"
    "ToString rt (device_id (body req)) = Some key"
  shows "res_status (fst (post_api_data rt API_KEY now rnd req s)) = 200"
proof (cases "devices_get (devices s) key")
  case None
  show ?thesis using post_accepted_new[OF assms None, of now rnd] by (simp add: Let_def)
next
  case (Some m)
  show ?thesis using post_accepted_known[OF assms Some, of now rnd] by (simp add: Let_def)
qed

lemma post_status_cases:
  obtains (nokey) "\<not> truthy_str (x_api_key req)"
      "res_status (fst (post_api_data rt API_KEY now rnd req s)) = 401"
    | (badkey) "truthy_str (x_api_key req)" "x_api_key req \<noteq> API_KEY"
      "res_status (fst (post_api_data rt API_KEY now rnd req s)) = 401"
    | (missing) "truthy_str (x_api_key req)" "x_api_key req = API_KEY"
        "missing_required_fields (body req)"
      "res_status (fst (post_api_data rt API_KEY now rnd req s)) = 400"
    | (throws_parse) "truthy_str (x_api_key req)" "x_api_key req = API_KEY"
        "\<not> missing_required_fields (body req)"
        "parseFloat rt (temperature (body req)) = None \<or>
         parseFloat rt (humidity (body req)) = None"
      "res_status (fst (post_api_data rt API_KEY now rnd req s)) = 500"
    | (types) temp hum where "truthy_str (x_api_key req)" "x_api_key req = API_KEY"
        "\<not> missing_required_fields (body req)"
        "parseFloat rt (temperature (body req)) = Some temp"
        "parseFloat rt (humidity (body req)) = Some hum"
        "isNaN temp \<or> isNaN hum"
      "res_status (fst (post_api_data rt API_KEY now rnd req s)) = 400"
    | (throws_key) temp hum where "truthy_str (x_api_key req)" "x_api_key req = API_KEY"
        "\<not> missing_required_fields (body req)"
        "parseFloat rt (temperature (body req)) = Some temp"
        "parseFloat rt (humidity (body req)) = Some hum"
        "\<not> isNaN temp" "\<not> isNaN hum"
        "ToString rt (device_id (body req)) = None"
      "res_status (fst (post_api_data rt API_KEY now rnd req s)) = 500"
    | (ok) temp hum key where "truthy_str (x_api_key req)" "x_api_key req = API_KEY"
        "\<not> missing_required_fields (body req)"
        "parseFloat rt (temperature (body req)) = Some temp"
        "parseFloat rt (humidity (body req)) = Some hum"
        "\<not> isNaN temp" "\<not> isNaN hum"
        "ToString rt (device_id (body req)) = Some key"
      "res_status (fst (post_api_data rt API_KEY now rnd req s)) = 200"
proof -
  consider (a) "\<not> truthy_str (x_api_key req)"
    | (b) "truthy_str (x_api_key req)" "x_api_key req \<noteq> API_KEY"
    | (c) "truthy_str (x_api_key req)" "x_api_key req = API_KEY"
        "missing_required_fields (body req)"
    | (d) "truthy_str (x_api_key req)" "x_api_key req = API_KEY"
        "\<not> missing_required_fields (body req)"
    by blast
  then show thesis
  proof cases
    case a
    then show ?thesis using nokey by (simp add: post_missing_key)
  next
    case b
    then show ?thesis using badkey by (simp add: post_invalid_key)
  next
    case c
    then show ?thesis using missing by (simp add: post_missing_fields)
  next
    case d
    show ?thesis
    proof (cases "parseFloat rt (temperature (body req))")
      case None
      then show ?thesis
        using throws_parse d by (simp add: post_throws_parse server_error_def)
    next
      case temp: (Some temp)
      show ?thesis
      proof (cases "parseFloat rt (humidity (body req))")
        case None
        then show ?thesis
          using throws_parse d by (simp add: post_throws_parse server_error_def)
      next
        case hum: (Some hum)
        show ?thesis
        proof (cases "isNaN temp \<or> isNaN hum")
          case True
          then show ?thesis
            using types[OF d temp hum] d temp hum by (simp add: post_invalid_types)
        next
          case False
          then have n: "\<not> isNaN temp" "\<not> isNaN hum" by simp_all
          show ?thesis
          proof (cases "ToString rt (device_id (body req))")
            case None
            then show ?thesis
              using throws_key[OF d temp hum n] d temp hum n
              by (simp add: post_throws_key server_error_def)
          next
            case (Some key)
            then show ?thesis
              using ok[OF d temp hum n] post_accepted_status[OF d temp hum n] by blast
          qed
        qed
      qed
    qed
  qed
qed

lemmas post_eval =
  post_api_data_def Let_def example_runtime_def example_payload_def example_request_def
  initial_state_def missing_required_fields_def isNaN_def outside_ranges_def devices_get_def
  Object_prototype_keys_def logConnection_def log_record_def or_str_def sensorData_push_def
  server_error_def

subsection \<open>Authentication\<close>






subsection \<open>Field validation\<close>




subsection \<open>What a submit writes\<close>







text \<open>
  Claim C9. When submit is answered 401 or 400, \<^verbatim>\<open>devices\<close> and
  \<^verbatim>\<open>sensorData\<close> are what they were: no reading is appended and no device is
  registered. The state after the call is the state before it with one ERROR record
  logged.
\<close>

theorem failed_submit_only_logs:
  assumes "res_status (fst (post_api_data rt API_KEY now rnd req s)) = 401 \<or>
           res_status (fst (post_api_data rt API_KEY now rnd req s)) = 400"
  shows "devices (snd (post_api_data rt API_KEY now rnd req s)) = devices s \<and>
         sensorData (snd (post_api_data rt API_KEY now rnd req s)) = sensorData s \<and>
         (\<exists>message. snd (post_api_data rt API_KEY now rnd req s) =
            s\<lparr>connectionLogs :=
                logConnection req (now LogError) ERROR message (connectionLogs s)\<rparr>)"
proof (cases rule: post_status_cases[of req rt API_KEY now rnd s])
  case nokey
  then show ?thesis
    by (simp add: post_missing_key) (rule exI[of _ "''Missing API key''"], simp)
next
  case badkey
  then show ?thesis
    by (simp add: post_invalid_key) (rule exI[of _ "''Invalid API key''"], simp)
next
  case missing
  then show ?thesis
    by (simp add: post_missing_fields) (rule exI[of _ "''Missing required fields''"], simp)
next
  case throws_parse
  with assms show ?thesis by simp
next
  case (types temp hum)
  then show ?thesis
    by (simp add: post_invalid_types) (rule exI[of _ "''Invalid data types''"], simp)
next
  case (throws_key temp hum)
  with assms show ?thesis by simp
next
  case (ok temp hum key)
  with assms show ?thesis by simp
qed

text \<open>The round trip reading sent with a wrong key: the state after the call is the
  initial state with one record in the log.\<close>

theorem failed_submit_only_logs_witness:
  "snd (post_api_data example_runtime (Some ''secret123'') example_clock ''k3j9x0a1b''
          (example_request (Some ''wrong'') example_payload) (initial_state 0 0))
   = (initial_state 0 0)\<lparr>connectionLogs :=
        [\<lparr>l_timestamp = 1000, l_ip = Some ''192.168.1.50'',
          l_userAgent = ''ESP8266HTTPClient'', l_status = ERROR,
          l_message = ''Invalid API key'', l_apiKey = ''Present''\<rparr>]\<rparr>"
proof -
  let ?R = "post_api_data example_runtime (Some ''secret123'') example_clock ''k3j9x0a1b''
          (example_request (Some ''wrong'') example_payload) (initial_state 0 0)"
  have st: "res_status (fst ?R) = 401 \<or> res_status (fst ?R) = 400"
    by (simp add: post_api_data_def example_request_def)
  have l: "connectionLogs (snd ?R) =
        [\<lparr>l_timestamp = 1000, l_ip = Some ''192.168.1.50'',
          l_userAgent = ''ESP8266HTTPClient'', l_status = ERROR,
          l_message = ''Invalid API key'', l_apiKey = ''Present''\<rparr>]"
    by (simp add: post_api_data_def example_request_def logConnection_def log_record_def
        or_str_def initial_state_def)
  from failed_submit_only_logs[OF st] l show ?thesis
    by (cases "snd ?R") (auto simp: initial_state_def)
qed

text \<open>
  Claim C10. The entry that an accepted submit stores (the last of \<^verbatim>\<open>sensorData\<close>)
  has for timestamp the payload's \<^verbatim>\<open>ts\<close> when \<^verbatim>\<open>ts\<close> is truthy, and else the
  server's clock read at line 184: a \<^verbatim>\<open>ts\<close> that is present and falsy, such as 0 or
  the empty string, is discarded. Temperature and humidity are stored as parsed, so a
  0 stays 0.
\<close>

theorem falsy_ts_replaced:
  assumes "res_status (fst (post_api_data rt API_KEY now rnd req s)) = 200"
  shows "sensorData (snd (post_api_data rt API_KEY now rnd req s)) \<noteq> [] \<and>
         e_timestamp (last (sensorData (snd (post_api_data rt API_KEY now rnd req s)))) =
           (if truthy (ts (body req)) then Supplied (ts (body req))
            else ServerTime (now Timestamp)) \<and>
         Some (e_temperature (last (sensorData (snd (post_api_data rt API_KEY now rnd req s)))))
           = parseFloat rt (temperature (body req)) \<and>
         Some (e_humidity (last (sensorData (snd (post_api_data rt API_KEY now rnd req s)))))
           = parseFloat rt (humidity (body req)) \<and>
         \<not> truthy (JNum (Fin 0)) \<and> \<not> truthy (JStr '''') \<and>
         parseFloat rt (JNum (Fin 0)) = Some (Fin 0)"
proof (cases rule: post_status_cases[of req rt API_KEY now rnd s])
  case nokey
  with assms show ?thesis by simp
next
  case badkey
  with assms show ?thesis by simp
next
  case missing
  with assms show ?thesis by simp
next
  case throws_parse
  with assms show ?thesis by simp
next
  case (types temp hum)
  with assms show ?thesis by simp
next
  case (throws_key temp hum)
  with assms show ?thesis by simp
next
  case (ok temp hum key)
  show ?thesis
  proof (cases "devices_get (devices s) key")
    case None
    show ?thesis
      using post_accepted_new[OF ok(1-8) None, of now rnd] ok(4,5)
      by (simp add: Let_def sensorData_push_last)
  next
    case (Some m)
    show ?thesis
      using post_accepted_known[OF ok(1-8) Some, of now rnd] ok(4,5)
      by (simp add: Let_def sensorData_push_last)
  qed
qed

text \<open>A payload with \<^verbatim>\<open>ts\<close>, temperature and humidity all 0: the stored timestamp is
  the server's, the stored temperature and humidity are 0.\<close>

theorem falsy_ts_replaced_witness:
  "map (\<lambda>entry. (e_timestamp entry, e_temperature entry, e_humidity entry))
     (sensorData (snd (post_api_data example_runtime (Some ''secret123'') example_clock
        ''k3j9x0a1b''
        (example_request (Some ''secret123'')
           \<lparr>device_id = JStr ''DEV1'', device_name = JUndefined, sensor = JStr ''dht11'',
            temperature = JNum (Fin 0), humidity = JNum (Fin 0), ts = JNum (Fin 0)\<rparr>)
        (initial_state 0 0))))
   = [(ServerTime 1005, Fin 0, Fin 0)]"
proof -
  let ?req = "example_request (Some ''secret123'')
           \<lparr>device_id = JStr ''DEV1'', device_name = JUndefined, sensor = JStr ''dht11'',
            temperature = JNum (Fin 0), humidity = JNum (Fin 0), ts = JNum (Fin 0)\<rparr>"
  let ?R = "post_api_data example_runtime (Some ''secret123'') example_clock ''k3j9x0a1b''
              ?req (initial_state 0 0)"
  have st: "res_status (fst ?R) = 200"
    by (simp add: post_eval)
  have len: "length (sensorData (snd ?R)) = 1"
    by (simp add: post_eval)
  then obtain e where e: "sensorData (snd ?R) = [e]"
    by (cases "sensorData (snd ?R)") auto
  from falsy_ts_replaced[OF st] e show ?thesis
    by (simp add: example_request_def)
qed

subsection \<open>The device registry\<close>

lemma devices_get_None: "devices_get ds key = None \<Longrightarrow> ds key = None"
  by (simp add: devices_get_def split: option.splits if_splits)

lemma post_devices_kept:
  assumes "devices s k = Some d"
  shows "devices (snd (post_api_data rt API_KEY now rnd req s)) k = Some d"
proof (cases rule: post_status_cases[of req rt API_KEY now rnd s])
  case nokey
  then show ?thesis using assms by (simp add: post_missing_key)
next
  case badkey
  then show ?thesis using assms by (simp add: post_invalid_key)
next
  case missing
  then show ?thesis using assms by (simp add: post_missing_fields)
next
  case throws_parse
  then show ?thesis using assms by (simp add: post_throws_parse server_error_def)
next
  case (types temp hum)
  then show ?thesis using assms by (simp add: post_invalid_types)
next
  case (throws_key temp hum)
  then show ?thesis using assms by (simp add: post_throws_key server_error_def)
next
  case (ok temp hum key)
  show ?thesis
  proof (cases "devices_get (devices s) key")
    case None
    then have "key \<noteq> k"
      using assms devices_get_None[OF None] by auto
    then show ?thesis
      using post_accepted_new[OF ok(1-8) None, of now rnd] assms by (simp add: Let_def)
  next
    case (Some m)
    show ?thesis
      using post_accepted_known[OF ok(1-8) Some, of now rnd] assms by (simp add: Let_def)
  qed
qed

lemma handle_devices_kept:
  "devices s k = Some d \<Longrightarrow> devices (handle rt API_KEY c s) k = Some d"
  by (cases c)
     (simp_all add: post_devices_kept delete_api_data_cleanup_def cleanup_from_def Let_def)

lemma run_devices_kept:
  "devices s k = Some d \<Longrightarrow> devices (run rt API_KEY cs s) k = Some d"
  by (induction cs arbitrary: s) (simp_all add: handle_devices_kept)

text \<open>
  Claim C8. A device id that \<^verbatim>\<open>devices\<close> holds keeps its metadata through every
  call of every route, a submit from that id with any \<^verbatim>\<open>device_name\<close> and any other
  field included, and so through every run of the server: registration never
  overwrites, and nothing deletes a device.
\<close>

theorem devices_immutable:
  assumes "devices s k = Some d"
  shows "devices (handle rt API_KEY c s) k = Some d \<and>
         devices (run rt API_KEY cs s) k = Some d"
  using assms by (simp add: handle_devices_kept run_devices_kept)

text \<open>The pre-registered device \<^verbatim>\<open>DEADBEEF0001\<close> sends a reading under another name;
  then a cleanup and a listing follow. Its metadata are those of the start.\<close>

theorem devices_immutable_witness:
  "devices
     (run example_runtime (Some ''secret123'')
        [POST_api_data example_clock ''k3j9x0a1b''
           (example_request (Some ''secret123'')
              \<lparr>device_id = JStr ''DEADBEEF0001'', device_name = JStr ''Renamed'',
               sensor = JStr ''dht11'', temperature = JNum (Fin (45 / 2)),
               humidity = JNum (Fin 55), ts = JUndefined\<rparr>),
         DELETE_api_data_cleanup 604800000 None,
         GET_api_devices]
        (initial_state 0 0))
     ''DEADBEEF0001''
   = Some \<lparr>name = JStr ''Greenhouse_Node_1'', location = ''Greenhouse-01'',
            registeredAt = 0, autoRegistered = False\<rparr>"
proof -
  have "devices (initial_state 0 0) ''DEADBEEF0001''
        = Some \<lparr>name = JStr ''Greenhouse_Node_1'', location = ''Greenhouse-01'',
                 registeredAt = 0, autoRegistered = False\<rparr>"
    by (simp add: initial_state_def)
  from devices_immutable[OF this] show ?thesis by blast
qed

subsection \<open>Reading the store\<close>

lemma take_drop_clamped:
  "take (min (a + m) (length xs) - min a (length xs)) (drop (min a (length xs)) xs)
   = take m (drop a xs)"
  by (cases "a \<le> length xs") (auto simp: min_def)

lemma slice_nat:
  "slice xs (Fin (of_nat a)) (Fin (of_nat a + of_nat m)) = take m (drop a xs)"
proof -
  have "nat (int a + int m) = a + m" by simp
  then show ?thesis
    unfolding slice_def
    by (simp add: Let_def take_drop_clamped)
qed

lemma Math_min_nat: "Math_min (Fin (of_nat l)) (Fin 500) = Fin (of_nat (min l 500))"
proof -
  have "(500::rat) = of_nat 500" by simp
  then show ?thesis unfolding Math_min_def
    by (auto simp: min_def simp del: of_nat_numeral)
qed

lemma strict_eq_str_JStr: "strict_eq_str v (Some d) = (v = JStr d)"
  by (cases v) auto

text \<open>
  Claim C4. Let the offset of the query read as the natural number \<open>off\<close> (0 when the
  parameter is absent) and its limit as the natural number \<open>lmt\<close> (50 when absent), and
  let \<open>filtered\<close> be the stored readings whose \<^verbatim>\<open>device_id\<close> is the string asked
  for, in insertion order (all of them when no \<^verbatim>\<open>device_id\<close> is asked for, which
  for the handler includes the empty string). Then the page is \<open>filtered\<close> without
  its \<open>off\<close> oldest readings, cut to \<open>min lmt 500\<close> readings and reversed, so that the
  newest comes first; it has \<open>min (length filtered - off) (min lmt 500)\<close> readings, with
  the truncating subtraction of naturals; \<^verbatim>\<open>returned\<close> is that number and
  \<^verbatim>\<open>total\<close> is \<open>length filtered\<close>.
\<close>

theorem pagination_law:
  assumes "(case q_offset q of None \<Rightarrow> Fin 0 | Some v \<Rightarrow> parseInt_string rt v)
           = Fin (of_nat off)"
    and "(case q_limit q of None \<Rightarrow> Fin 50 | Some v \<Rightarrow> parseInt_string rt v)
         = Fin (of_nat lmt)"
  shows "let filtered =
               (case q_device_id q of
                  None \<Rightarrow> sensorData s
                | Some d \<Rightarrow> if d = [] then sensorData s
                            else filter (\<lambda>entry. e_device_id entry = JStr d) (sensorData s));
             page = get_api_data rt q s
         in p_data page = rev (take (min lmt 500) (drop off filtered)) \<and>
            length (p_data page) = min (length filtered - off) (min lmt 500) \<and>
            p_returned page = length (p_data page) \<and>
            p_total page = length filtered"
  unfolding get_api_data_def Let_def assms
  by (cases "q_device_id q")
     (simp_all add: Math_min_nat slice_nat min.commute strict_eq_str_JStr)

text \<open>Five readings, four of them of device A; the query for A with offset 1 and limit
  2 skips the oldest of A and returns the next two, newest first.\<close>

theorem pagination_law_witness:
  "get_api_data example_runtime
     \<lparr>q_device_id = Some ''A'', q_limit = Some ''2'', q_offset = Some ''1''\<rparr>
     ((initial_state 0 0)\<lparr>sensorData :=
        [example_reading ''A'' 1, example_reading ''B'' 2, example_reading ''A'' 3,
         example_reading ''A'' 4, example_reading ''A'' 5]\<rparr>)
   = \<lparr>p_total = 4, p_returned = 2, p_offset = Fin 1, p_limit = Fin 2,
      p_data = [example_reading ''A'' 4, example_reading ''A'' 3]\<rparr>"
proof -
  let ?q = "\<lparr>q_device_id = Some ''A'', q_limit = Some ''2'', q_offset = Some ''1''\<rparr>"
  let ?s = "(initial_state 0 0)\<lparr>sensorData :=
        [example_reading ''A'' 1, example_reading ''B'' 2, example_reading ''A'' 3,
         example_reading ''A'' 4, example_reading ''A'' 5]\<rparr>"
  have o: "(case q_offset ?q of None \<Rightarrow> Fin 0 | Some v \<Rightarrow> parseInt_string example_runtime v)
           = Fin (of_nat 1)"
    by (simp add: example_runtime_def)
  have l: "(case q_limit ?q of None \<Rightarrow> Fin 50 | Some v \<Rightarrow> parseInt_string example_runtime v)
           = Fin (of_nat 2)"
    by (simp add: example_runtime_def)
  have d: "p_data (get_api_data example_runtime ?q ?s)
           = [example_reading ''A'' 4, example_reading ''A'' 3] \<and>
           p_returned (get_api_data example_runtime ?q ?s) = 2 \<and>
           p_total (get_api_data example_runtime ?q ?s) = 4"
    using pagination_law[OF o l, of ?s]
    by (simp add: Let_def example_reading_def)
  have r: "p_offset (get_api_data example_runtime ?q ?s) = Fin 1 \<and>
           p_limit (get_api_data example_runtime ?q ?s) = Fin 2"
    by (simp add: get_api_data_def Let_def example_runtime_def Math_min_def)
  show ?thesis using d r by (cases "get_api_data example_runtime ?q ?s") simp
qed

subsection \<open>Cleanup\<close>

text \<open>
  Three readings, received one millisecond before the cutoff, at the cutoff and one
  millisecond after it: the cleanup deletes two of them, the one received at the cutoff
  included, and one remains.
\<close>

theorem cleanup_boundary_counterexample:
  "cleanup_from (Some 5000)
     ((initial_state 0 0)\<lparr>sensorData :=
        [example_reading ''A'' 4999, example_reading ''A'' 5000, example_reading ''A'' 5001]\<rparr>)
   = ((2, 1), (initial_state 0 0)\<lparr>sensorData := [example_reading ''A'' 5001]\<rparr>)"
  by (simp add: cleanup_from_def Let_def example_reading_def)

text \<open>
  Claim C3, as amended. The cleanup with cutoff \<open>c\<close> keeps exactly the readings received
  strictly after \<open>c\<close>, in their order, and removes the others, those received at \<open>c\<close>
  included; it reports the number of readings removed and the number that remain, and
  touches nothing else. The route computes the cutoff from the clock and the
  \<^verbatim>\<open>days\<close> parameter (7 when absent) and does this.
\<close>

theorem cleanup_keeps_strictly_newer:
  "cleanup_from (Some c) s =
     ((length (filter (\<lambda>entry. e_received_at entry \<le> c) (sensorData s)),
       length (filter (\<lambda>entry. c < e_received_at entry) (sensorData s))),
      s\<lparr>sensorData := filter (\<lambda>entry. c < e_received_at entry) (sensorData s)\<rparr>) \<and>
   delete_api_data_cleanup rt now days s =
     cleanup_from
       (Date_minus_days rt now (case days of None \<Rightarrow> Fin 7 | Some v \<Rightarrow> parseInt_string rt v))
       s"
proof -
  have "length (sensorData s) - length (filter (\<lambda>entry. c < e_received_at entry) (sensorData s))
        = length (filter (\<lambda>entry. e_received_at entry \<le> c) (sensorData s))"
    using sum_length_filter_compl[of "\<lambda>entry. c < e_received_at entry" "sensorData s"]
    by (simp add: not_less)
  then show ?thesis
    by (simp add: cleanup_from_def delete_api_data_cleanup_def Let_def)
qed

end
